theory Spec2Isabelle
  imports Main
begin

section \<open>The Backoffice course aggregate\<close>

text \<open>
  A shallow embedding of \<^verbatim>\<open>src/Contexts/Backoffice/Courses/domain/BackofficeCourse.ts\<close>.
  The class \<^verbatim>\<open>BackofficeCourse\<close> extends \<^verbatim>\<open>AggregateRoot\<close> and holds three value objects.
  The value-object classes and the aggregate-root base are imported by the source file
  from sibling modules; they are modelled below from their written description.
  An exception of the source is the left summand of a result type; a method of the
  aggregate takes the receiver and returns its result together with the receiver afterwards.
\<close>

subsection \<open>Validation errors and validation rules\<close>

text \<open>
  Modelled from the spec: the error class \<^verbatim>\<open>ValidationError\<close> (its module is imported, not
  shown): the single error kind, carrying the offending field name and a description of
  the violated rule.
\<close>

datatype ValidationError = ValidationError (field: string) (rule: string)

text \<open>
  Modelled from the spec: the configuration of the value objects' validation, which the
  description leaves to the implementer: the identifier format in use, the maximum length
  of a name, and the enumerated set of duration tokens (\<open>None\<close> when durations are
  free-form and only required to be non-empty).
\<close>

record ValidationRules =
  idFormat :: "string \<Rightarrow> bool"
  nameMaxLength :: nat
  durationTokens :: "string list option"

text \<open>
  Modelled from the spec: trimming, as used by the rule "empty after trimming" of a name:
  white space is removed from both ends of the string.
\<close>

definition isWhiteSpace :: "char \<Rightarrow> bool" where
  "isWhiteSpace c = (c \<in> set [CHR '' '', CHR 0x09, CHR 0x0A, CHR 0x0B, CHR 0x0C, CHR 0x0D])"

definition trim :: "string \<Rightarrow> string" where
  "trim s = rev (dropWhile isWhiteSpace (rev (dropWhile isWhiteSpace s)))"

subsection \<open>Value objects\<close>

text \<open>
  Modelled from the spec: the classes \<^verbatim>\<open>BackofficeCourseId\<close>, \<^verbatim>\<open>BackofficeCourseName\<close> and
  \<^verbatim>\<open>BackofficeCourseDuration\<close> (modules \<^verbatim>\<open>./BackofficeCourseId\<close>, \<^verbatim>\<open>./BackofficeCourseName\<close>,
  \<^verbatim>\<open>./BackofficeCourseDuration\<close>, imported but not shown). Each wraps one raw string, read
  back through \<^verbatim>\<open>.value\<close>, and has no mutator.
\<close>

datatype BackofficeCourseId = BackofficeCourseId (idValue: string)

datatype BackofficeCourseName = BackofficeCourseName (nameValue: string)

datatype BackofficeCourseDuration = BackofficeCourseDuration (durationValue: string)

text \<open>
  Modelled from the spec: the constructors of the three value objects. Each takes the raw
  string and either returns the instance wrapping it or fails with a \<^verbatim>\<open>ValidationError\<close>.
  An identifier fails when it is empty or not in the identifier format in use; a name fails
  when it is empty after trimming or longer than the maximum; a duration fails when it is
  empty or, where the tokens are enumerated, not one of them.
\<close>

definition new_BackofficeCourseId ::
  "ValidationRules \<Rightarrow> string \<Rightarrow> ValidationError + BackofficeCourseId" where
  "new_BackofficeCourseId rules v =
     (if v = [] then Inl (ValidationError ''id'' ''must not be empty'')
      else if \<not> idFormat rules v then Inl (ValidationError ''id'' ''must be a valid identifier'')
      else Inr (BackofficeCourseId v))"

definition new_BackofficeCourseName ::
  "ValidationRules \<Rightarrow> string \<Rightarrow> ValidationError + BackofficeCourseName" where
  "new_BackofficeCourseName rules v =
     (if trim v = [] then Inl (ValidationError ''name'' ''must not be empty'')
      else if nameMaxLength rules < length v
        then Inl (ValidationError ''name'' ''must not exceed the maximum length'')
      else Inr (BackofficeCourseName v))"

definition new_BackofficeCourseDuration ::
  "ValidationRules \<Rightarrow> string \<Rightarrow> ValidationError + BackofficeCourseDuration" where
  "new_BackofficeCourseDuration rules v =
     (if v = [] then Inl (ValidationError ''duration'' ''must not be empty'')
      else case durationTokens rules of
        None \<Rightarrow> Inr (BackofficeCourseDuration v)
      | Some tokens \<Rightarrow>
          if v \<in> set tokens then Inr (BackofficeCourseDuration v)
          else Inl (ValidationError ''duration'' ''must be an accepted duration''))"

subsection \<open>The aggregate-root base\<close>

text \<open>
  Modelled from the spec: a domain event, a record of a fact that occurred; the
  "course created" event names the aggregate it is about.
\<close>

record DomainEvent =
  eventName :: string
  aggregateId :: string

definition courseCreated :: "BackofficeCourseId \<Rightarrow> DomainEvent" where
  "courseCreated i = \<lparr>eventName = ''course created'', aggregateId = idValue i\<rparr>"

text \<open>
  Modelled from the spec: the class \<^verbatim>\<open>AggregateRoot\<close> (module
  \<^verbatim>\<open>Shared/domain/AggregateRoot\<close>, imported but not shown). Every aggregate instance owns a
  list of pending domain events, empty when the instance is built; \<^verbatim>\<open>recordEvent\<close> appends
  to it, \<^verbatim>\<open>pullEvents\<close> returns it and clears it. Both are inherited, so they are stated on
  every extension of the base record.
\<close>

record AggregateRoot =
  domainEvents :: "DomainEvent list"

definition new_AggregateRoot :: AggregateRoot where
  "new_AggregateRoot = \<lparr>domainEvents = []\<rparr>"

definition recordEvent :: "DomainEvent \<Rightarrow> 'a AggregateRoot_scheme \<Rightarrow> unit \<times> 'a AggregateRoot_scheme" where
  "recordEvent event this = ((), this\<lparr>domainEvents := domainEvents this @ [event]\<rparr>)"

definition pullEvents :: "'a AggregateRoot_scheme \<Rightarrow> DomainEvent list \<times> 'a AggregateRoot_scheme" where
  "pullEvents this = (domainEvents this, this\<lparr>domainEvents := []\<rparr>)"

subsection \<open>The course aggregate\<close>

text \<open>
  The class of the source: the three read-only fields on top of the base. The field names
  carry the prefix \<open>course\<close>, and those of the plain data the prefix \<open>plain\<close>, since the two
  shapes share their field names and \<open>id\<close> is the identity function of HOL.
\<close>

record BackofficeCourse = AggregateRoot +
  courseId :: BackofficeCourseId
  courseName :: BackofficeCourseName
  courseDuration :: BackofficeCourseDuration

record PlainData =
  plainId :: string
  plainName :: string
  plainDuration :: string

text \<open>The constructor: \<^verbatim>\<open>super()\<close>, then the three assignments.\<close>

definition new_BackofficeCourse ::
  "BackofficeCourseId \<Rightarrow> BackofficeCourseName \<Rightarrow> BackofficeCourseDuration \<Rightarrow> BackofficeCourse" where
  "new_BackofficeCourse i n d =
     AggregateRoot.extend new_AggregateRoot
       (BackofficeCourse.fields i n d)"

text \<open>\<^verbatim>\<open>static create\<close>: builds the instance and returns it; the body has no other statement.\<close>

definition create ::
  "BackofficeCourseId \<Rightarrow> BackofficeCourseName \<Rightarrow> BackofficeCourseDuration \<Rightarrow> BackofficeCourse" where
  "create i n d = (let course = new_BackofficeCourse i n d in course)"

text \<open>
  \<^verbatim>\<open>static fromPrimitives\<close>: the arguments of the constructor call are evaluated from left
  to right, and the first value-object constructor that throws ends the call.
\<close>

definition fromPrimitives ::
  "ValidationRules \<Rightarrow> PlainData \<Rightarrow> ValidationError + BackofficeCourse" where
  "fromPrimitives rules plainData =
     (case new_BackofficeCourseId rules (plainId plainData) of
        Inl e \<Rightarrow> Inl e
      | Inr i \<Rightarrow>
         (case new_BackofficeCourseName rules (plainName plainData) of
            Inl e \<Rightarrow> Inl e
          | Inr n \<Rightarrow>
             (case new_BackofficeCourseDuration rules (plainDuration plainData) of
                Inl e \<Rightarrow> Inl e
              | Inr d \<Rightarrow> Inr (new_BackofficeCourse i n d))))"

text \<open>\<^verbatim>\<open>toPrimitives\<close>: reads the three values; the body assigns nothing.\<close>

definition toPrimitives :: "BackofficeCourse \<Rightarrow> PlainData \<times> BackofficeCourse" where
  "toPrimitives this =
     (\<lparr>plainId = idValue (courseId this),
       plainName = nameValue (courseName this),
       plainDuration = durationValue (courseDuration this)\<rparr>, this)"

subsection \<open>Evaluation order of the value-object constructors\<close>

text \<open>
  The same body as \<open>fromPrimitives\<close>, with the constructor calls that are evaluated written
  down in the order of their evaluation, each with its argument. A call that throws is the
  last one of the list.
\<close>

datatype ConstructorCall =
  IdConstructor string
| NameConstructor string
| DurationConstructor string

definition fromPrimitives_traced ::
  "ValidationRules \<Rightarrow> PlainData \<Rightarrow> ConstructorCall list \<times> (ValidationError + BackofficeCourse)" where
  "fromPrimitives_traced rules plainData =
     (case new_BackofficeCourseId rules (plainId plainData) of
        Inl e \<Rightarrow> ([IdConstructor (plainId plainData)], Inl e)
      | Inr i \<Rightarrow>
         (case new_BackofficeCourseName rules (plainName plainData) of
            Inl e \<Rightarrow>
              ([IdConstructor (plainId plainData), NameConstructor (plainName plainData)], Inl e)
          | Inr n \<Rightarrow>
             (case new_BackofficeCourseDuration rules (plainDuration plainData) of
                Inl e \<Rightarrow>
                  ([IdConstructor (plainId plainData), NameConstructor (plainName plainData),
                    DurationConstructor (plainDuration plainData)], Inl e)
              | Inr d \<Rightarrow>
                  ([IdConstructor (plainId plainData), NameConstructor (plainName plainData),
                    DurationConstructor (plainDuration plainData)],
                   Inr (new_BackofficeCourse i n d)))))"

subsection \<open>Sequences of method calls\<close>

text \<open>
  The methods an instance of the class offers: its own \<^verbatim>\<open>toPrimitives\<close> and the two
  inherited from the base. \<open>invoke\<close> gives the receiver after one call, \<open>invokeAll\<close> after a
  sequence of calls.
\<close>

datatype MethodCall =
  ToPrimitives
| PullEvents
| RecordEvent DomainEvent

fun invoke :: "MethodCall \<Rightarrow> BackofficeCourse \<Rightarrow> BackofficeCourse" where
  "invoke ToPrimitives this = snd (toPrimitives this)"
| "invoke PullEvents this = snd (pullEvents this)"
| "invoke (RecordEvent event) this = snd (recordEvent event this)"

fun invokeAll :: "MethodCall list \<Rightarrow> BackofficeCourse \<Rightarrow> BackofficeCourse" where
  "invokeAll [] this = this"
| "invokeAll (call # calls) this = invokeAll calls (invoke call this)"

subsection \<open>Example values\<close>

text \<open>
  One choice of validation rules, and the record of the end-to-end scenario, for the
  instances stated after the theorems: identifiers contain a hyphen, names have at most
  thirty characters, durations are one of two tokens.
\<close>

abbreviation sampleRules :: ValidationRules where
  "sampleRules \<equiv>
     \<lparr>idFormat = (\<lambda>v. CHR ''-'' \<in> set v), nameMaxLength = 30,
      durationTokens = Some [''4weeks'', ''8weeks'']\<rparr>"

abbreviation sampleData :: PlainData where
  "sampleData \<equiv> \<lparr>plainId = ''abc-123'', plainName = ''Rust Basics'', plainDuration = ''4weeks''\<rparr>"

section \<open>Properties\<close>

lemma new_BackofficeCourse_fields [simp]:
  "domainEvents (new_BackofficeCourse i n d) = []"
  "courseId (new_BackofficeCourse i n d) = i"
  "courseName (new_BackofficeCourse i n d) = n"
  "courseDuration (new_BackofficeCourse i n d) = d"
  by (simp_all add: new_BackofficeCourse_def new_AggregateRoot_def
      AggregateRoot.defs BackofficeCourse.defs)

lemma create_fields [simp]:
  "domainEvents (create i n d) = []"
  "courseId (create i n d) = i"
  "courseName (create i n d) = n"
  "courseDuration (create i n d) = d"
  by (simp_all add: create_def)

subsection \<open>What the value-object constructors return\<close>

lemma new_BackofficeCourseId_value:
  "new_BackofficeCourseId rules v = Inr i \<Longrightarrow> idValue i = v"
  by (auto simp: new_BackofficeCourseId_def split: if_splits)

lemma new_BackofficeCourseName_value:
  "new_BackofficeCourseName rules v = Inr n \<Longrightarrow> nameValue n = v"
  by (auto simp: new_BackofficeCourseName_def split: if_splits)

lemma new_BackofficeCourseDuration_value:
  "new_BackofficeCourseDuration rules v = Inr d \<Longrightarrow> durationValue d = v"
  by (auto simp: new_BackofficeCourseDuration_def split: if_splits option.splits)

lemma sample_id:
  "new_BackofficeCourseId sampleRules ''abc-123'' = Inr (BackofficeCourseId ''abc-123'')"
  by (simp add: new_BackofficeCourseId_def)

lemma sample_name:
  "new_BackofficeCourseName sampleRules ''Rust Basics'' = Inr (BackofficeCourseName ''Rust Basics'')"
  by (simp add: new_BackofficeCourseName_def trim_def isWhiteSpace_def)

lemma sample_duration:
  "new_BackofficeCourseDuration sampleRules ''4weeks'' = Inr (BackofficeCourseDuration ''4weeks'')"
  by (simp add: new_BackofficeCourseDuration_def)

lemma sample_bad_id:
  "new_BackofficeCourseId sampleRules [] = Inl (ValidationError ''id'' ''must not be empty'')"
  by (simp add: new_BackofficeCourseId_def)

lemma sample_bad_name:
  "new_BackofficeCourseName sampleRules ''  '' = Inl (ValidationError ''name'' ''must not be empty'')"
  by (simp add: new_BackofficeCourseName_def trim_def isWhiteSpace_def)

lemma sample_bad_duration:
  "new_BackofficeCourseDuration sampleRules ''nonsense''
     = Inl (ValidationError ''duration'' ''must be an accepted duration'')"
  by (simp add: new_BackofficeCourseDuration_def)

subsection \<open>The two construction paths\<close>

lemma fromPrimitives_accepted:
  assumes "new_BackofficeCourseId rules (plainId r) = Inr i"
      and "new_BackofficeCourseName rules (plainName r) = Inr n"
      and "new_BackofficeCourseDuration rules (plainDuration r) = Inr d"
  shows "fromPrimitives rules r = Inr (new_BackofficeCourse i n d)"
  using assms by (simp add: fromPrimitives_def)

lemma fromPrimitives_traced_result:
  "snd (fromPrimitives_traced rules r) = fromPrimitives rules r"
  by (simp add: fromPrimitives_traced_def fromPrimitives_def split: sum.splits)

text \<open>
  Claim C1. \<^verbatim>\<open>create\<close> is to record one "course created" event, so that the first
  \<^verbatim>\<open>pullEvents()\<close> on the returned aggregate gives exactly that event. The body of \<^verbatim>\<open>create\<close>
  records nothing: on the aggregate of the end-to-end scenario, the first \<^verbatim>\<open>pullEvents()\<close>
  already gives the empty list.
\<close>

theorem create_leaves_no_pending_event:
  "fst (pullEvents (create (BackofficeCourseId ''abc-123'') (BackofficeCourseName ''Rust Basics'')
          (BackofficeCourseDuration ''4weeks''))) = []
   \<and> fst (pullEvents (create (BackofficeCourseId ''abc-123'') (BackofficeCourseName ''Rust Basics'')
          (BackofficeCourseDuration ''4weeks''))) \<noteq> [courseCreated (BackofficeCourseId ''abc-123'')]"
  by (simp add: pullEvents_def)

text \<open>
  Claim C2. For every plain record whose three fields are accepted by the value-object
  constructors, \<^verbatim>\<open>fromPrimitives\<close> returns an aggregate with no pending domain event:
  \<^verbatim>\<open>pullEvents()\<close> on the result returns the empty list.
\<close>

theorem fromPrimitives_no_pending_event:
  assumes "new_BackofficeCourseId rules (plainId r) = Inr i"
      and "new_BackofficeCourseName rules (plainName r) = Inr n"
      and "new_BackofficeCourseDuration rules (plainDuration r) = Inr d"
  shows "\<exists>course. fromPrimitives rules r = Inr course
           \<and> domainEvents course = [] \<and> fst (pullEvents course) = []"
proof -
  have "fromPrimitives rules r = Inr (new_BackofficeCourse i n d)"
    using assms by (rule fromPrimitives_accepted)
  moreover have "fst (pullEvents (new_BackofficeCourse i n d)) = []"
    by (simp add: pullEvents_def)
  ultimately show ?thesis by simp
qed

theorem fromPrimitives_no_pending_event_witness:
  "new_BackofficeCourseId sampleRules (plainId sampleData) = Inr (BackofficeCourseId ''abc-123'')
   \<and> new_BackofficeCourseName sampleRules (plainName sampleData)
       = Inr (BackofficeCourseName ''Rust Basics'')
   \<and> new_BackofficeCourseDuration sampleRules (plainDuration sampleData)
       = Inr (BackofficeCourseDuration ''4weeks'')
   \<and> (\<exists>course. fromPrimitives sampleRules sampleData = Inr course
         \<and> domainEvents course = [] \<and> fst (pullEvents course) = [])"
proof -
  have h1: "new_BackofficeCourseId sampleRules (plainId sampleData)
              = Inr (BackofficeCourseId ''abc-123'')"
    using sample_id by simp
  have h2: "new_BackofficeCourseName sampleRules (plainName sampleData)
              = Inr (BackofficeCourseName ''Rust Basics'')"
    using sample_name by simp
  have h3: "new_BackofficeCourseDuration sampleRules (plainDuration sampleData)
              = Inr (BackofficeCourseDuration ''4weeks'')"
    using sample_duration by simp
  from fromPrimitives_no_pending_event [OF h1 h2 h3] h1 h2 h3 show ?thesis by blast
qed

text \<open>
  Claim C3. When the three value-object constructors accept the raw strings \<open>a\<close>, \<open>b\<close> and
  \<open>c\<close>, \<^verbatim>\<open>toPrimitives()\<close> on the aggregate that \<^verbatim>\<open>create\<close> builds from the three value
  objects returns the plain record of \<open>a\<close>, \<open>b\<close> and \<open>c\<close>, each unchanged.
\<close>

theorem create_toPrimitives_roundtrip:
  assumes "new_BackofficeCourseId rules a = Inr i"
      and "new_BackofficeCourseName rules b = Inr n"
      and "new_BackofficeCourseDuration rules c = Inr d"
  shows "fst (toPrimitives (create i n d)) = \<lparr>plainId = a, plainName = b, plainDuration = c\<rparr>"
proof -
  have "idValue i = a" "nameValue n = b" "durationValue d = c"
    using assms
    by (simp_all add: new_BackofficeCourseId_value new_BackofficeCourseName_value
        new_BackofficeCourseDuration_value)
  then show ?thesis by (simp add: toPrimitives_def)
qed

theorem create_toPrimitives_roundtrip_witness:
  "new_BackofficeCourseId sampleRules ''abc-123'' = Inr (BackofficeCourseId ''abc-123'')
   \<and> new_BackofficeCourseName sampleRules ''Rust Basics'' = Inr (BackofficeCourseName ''Rust Basics'')
   \<and> new_BackofficeCourseDuration sampleRules ''4weeks'' = Inr (BackofficeCourseDuration ''4weeks'')
   \<and> fst (toPrimitives (create (BackofficeCourseId ''abc-123'') (BackofficeCourseName ''Rust Basics'')
            (BackofficeCourseDuration ''4weeks'')))
       = \<lparr>plainId = ''abc-123'', plainName = ''Rust Basics'', plainDuration = ''4weeks''\<rparr>"
  using create_toPrimitives_roundtrip [OF sample_id sample_name sample_duration]
    sample_id sample_name sample_duration
  by simp

text \<open>
  Claim C4. For every plain record \<open>r\<close> whose three fields are accepted by the value-object
  constructors, \<^verbatim>\<open>fromPrimitives(r)\<close> returns an aggregate whose \<^verbatim>\<open>toPrimitives()\<close> is \<open>r\<close>.
\<close>

theorem fromPrimitives_toPrimitives_roundtrip:
  assumes "new_BackofficeCourseId rules (plainId r) = Inr i"
      and "new_BackofficeCourseName rules (plainName r) = Inr n"
      and "new_BackofficeCourseDuration rules (plainDuration r) = Inr d"
  shows "\<exists>course. fromPrimitives rules r = Inr course \<and> fst (toPrimitives course) = r"
proof (intro exI conjI)
  show "fromPrimitives rules r = Inr (new_BackofficeCourse i n d)"
    using assms by (rule fromPrimitives_accepted)
next
  have "idValue i = plainId r"
    using assms(1) by (rule new_BackofficeCourseId_value)
  moreover have "nameValue n = plainName r"
    using assms(2) by (rule new_BackofficeCourseName_value)
  moreover have "durationValue d = plainDuration r"
    using assms(3) by (rule new_BackofficeCourseDuration_value)
  ultimately show "fst (toPrimitives (new_BackofficeCourse i n d)) = r"
    by (simp add: toPrimitives_def)
qed

theorem fromPrimitives_toPrimitives_roundtrip_witness:
  "new_BackofficeCourseId sampleRules (plainId sampleData) = Inr (BackofficeCourseId ''abc-123'')
   \<and> new_BackofficeCourseName sampleRules (plainName sampleData)
       = Inr (BackofficeCourseName ''Rust Basics'')
   \<and> new_BackofficeCourseDuration sampleRules (plainDuration sampleData)
       = Inr (BackofficeCourseDuration ''4weeks'')
   \<and> (\<exists>course. fromPrimitives sampleRules sampleData = Inr course
         \<and> fst (toPrimitives course) = sampleData)"
proof -
  have h1: "new_BackofficeCourseId sampleRules (plainId sampleData)
              = Inr (BackofficeCourseId ''abc-123'')"
    using sample_id by simp
  have h2: "new_BackofficeCourseName sampleRules (plainName sampleData)
              = Inr (BackofficeCourseName ''Rust Basics'')"
    using sample_name by simp
  have h3: "new_BackofficeCourseDuration sampleRules (plainDuration sampleData)
              = Inr (BackofficeCourseDuration ''4weeks'')"
    using sample_duration by simp
  from fromPrimitives_toPrimitives_roundtrip [OF h1 h2 h3] h1 h2 h3 show ?thesis by blast
qed

text \<open>
  Claim C5. \<^verbatim>\<open>fromPrimitives\<close> fails with a \<^verbatim>\<open>ValidationError\<close> exactly when one of the
  three value-object constructors rejects its field of the record, and returns a course
  aggregate exactly when all three accept.
\<close>

theorem fromPrimitives_fails_iff_field_rejected:
  "((\<exists>e. fromPrimitives rules r = Inl e) \<longleftrightarrow>
      (isl (new_BackofficeCourseId rules (plainId r))
       \<or> isl (new_BackofficeCourseName rules (plainName r))
       \<or> isl (new_BackofficeCourseDuration rules (plainDuration r))))
   \<and> ((\<exists>course. fromPrimitives rules r = Inr course) \<longleftrightarrow>
      (\<not> isl (new_BackofficeCourseId rules (plainId r))
       \<and> \<not> isl (new_BackofficeCourseName rules (plainName r))
       \<and> \<not> isl (new_BackofficeCourseDuration rules (plainDuration r))))"
proof (cases "new_BackofficeCourseId rules (plainId r)")
  case (Inl e)
  then show ?thesis by (simp add: fromPrimitives_def)
next
  case i: (Inr i)
  show ?thesis
  proof (cases "new_BackofficeCourseName rules (plainName r)")
    case (Inl e)
    with i show ?thesis by (simp add: fromPrimitives_def)
  next
    case n: (Inr n)
    show ?thesis
    proof (cases "new_BackofficeCourseDuration rules (plainDuration r)")
      case (Inl e)
      with i n show ?thesis by (simp add: fromPrimitives_def)
    next
      case (Inr d)
      with i n show ?thesis by (simp add: fromPrimitives_def)
    qed
  qed
qed

theorem fromPrimitives_fails_iff_field_rejected_witness:
  "isl (new_BackofficeCourseDuration sampleRules ''nonsense'')
   \<and> (\<exists>e. fromPrimitives sampleRules
             \<lparr>plainId = ''abc-123'', plainName = ''Rust Basics'', plainDuration = ''nonsense''\<rparr>
           = Inl e)
   \<and> \<not> isl (new_BackofficeCourseId sampleRules ''abc-123'')
   \<and> \<not> isl (new_BackofficeCourseName sampleRules ''Rust Basics'')
   \<and> \<not> isl (new_BackofficeCourseDuration sampleRules ''4weeks'')
   \<and> (\<exists>course. fromPrimitives sampleRules sampleData = Inr course)"
  using fromPrimitives_fails_iff_field_rejected [of sampleRules
      "\<lparr>plainId = ''abc-123'', plainName = ''Rust Basics'', plainDuration = ''nonsense''\<rparr>"]
    fromPrimitives_fails_iff_field_rejected [of sampleRules sampleData]
    sample_id sample_name sample_duration sample_bad_duration
  by simp

text \<open>
  Claim C6. \<^verbatim>\<open>create\<close> cannot fail: its body has no throwing statement and no check, so on
  every triple of value objects it returns the course instance the constructor builds,
  holding exactly the three value objects it was given. The validation rules do not occur
  in it.
\<close>

theorem create_returns_course:
  "create i n d = new_BackofficeCourse i n d
   \<and> courseId (create i n d) = i
   \<and> courseName (create i n d) = n
   \<and> courseDuration (create i n d) = d"
  by (simp add: create_def)

text \<open>
  Claim C7. A course aggregate is immutable after construction: whatever sequence of
  method calls (\<^verbatim>\<open>toPrimitives\<close>, \<^verbatim>\<open>pullEvents\<close>, \<^verbatim>\<open>recordEvent\<close>) is made on it, its three
  fields keep the values they had before the first call. This holds of every aggregate,
  in particular of those built by \<^verbatim>\<open>create\<close>, \<^verbatim>\<open>fromPrimitives\<close> or the constructor.
\<close>

lemma invoke_fields:
  "courseId (invoke call this) = courseId this"
  "courseName (invoke call this) = courseName this"
  "courseDuration (invoke call this) = courseDuration this"
  by (cases call; simp add: toPrimitives_def pullEvents_def recordEvent_def)+

theorem course_fields_never_reassigned:
  "courseId (invokeAll calls this) = courseId this
   \<and> courseName (invokeAll calls this) = courseName this
   \<and> courseDuration (invokeAll calls this) = courseDuration this"
proof (induction calls arbitrary: this)
  case Nil
  show ?case by simp
next
  case (Cons call calls)
  from Cons.IH [of "invoke call this"] show ?case
    by (simp add: invoke_fields)
qed

text \<open>
  Claim C8. \<^verbatim>\<open>toPrimitives()\<close> cannot fail and has no side effect: on every aggregate it
  returns the record of the three wrapped values and leaves the aggregate as it was, the
  three fields and the pending events included; a second call returns the same record.
\<close>

theorem toPrimitives_total_and_pure:
  "toPrimitives this =
     (\<lparr>plainId = idValue (courseId this), plainName = nameValue (courseName this),
       plainDuration = durationValue (courseDuration this)\<rparr>, this)
   \<and> snd (toPrimitives this) = this
   \<and> domainEvents (snd (toPrimitives this)) = domainEvents this
   \<and> fst (toPrimitives (snd (toPrimitives this))) = fst (toPrimitives this)"
  by (simp add: toPrimitives_def)

text \<open>
  Claim C9. When the three value-object constructors accept the raw strings \<open>a\<close>, \<open>b\<close> and
  \<open>c\<close>, the aggregate that \<^verbatim>\<open>create\<close> builds from the three value objects and the one that
  \<^verbatim>\<open>fromPrimitives\<close> builds from the record of \<open>a\<close>, \<open>b\<close> and \<open>c\<close> have the same three fields,
  and so the same \<^verbatim>\<open>toPrimitives()\<close>.
\<close>

theorem create_fromPrimitives_agree:
  assumes "new_BackofficeCourseId rules a = Inr i"
      and "new_BackofficeCourseName rules b = Inr n"
      and "new_BackofficeCourseDuration rules c = Inr d"
  shows "\<exists>course. fromPrimitives rules \<lparr>plainId = a, plainName = b, plainDuration = c\<rparr> = Inr course
           \<and> courseId course = courseId (create i n d)
           \<and> courseName course = courseName (create i n d)
           \<and> courseDuration course = courseDuration (create i n d)
           \<and> fst (toPrimitives course) = fst (toPrimitives (create i n d))"
proof -
  let ?r = "\<lparr>plainId = a, plainName = b, plainDuration = c\<rparr>"
  have "fromPrimitives rules ?r = Inr (new_BackofficeCourse i n d)"
    using assms by (intro fromPrimitives_accepted) simp_all
  then show ?thesis by (simp add: toPrimitives_def)
qed

theorem create_fromPrimitives_agree_witness:
  "new_BackofficeCourseId sampleRules ''abc-123'' = Inr (BackofficeCourseId ''abc-123'')
   \<and> new_BackofficeCourseName sampleRules ''Rust Basics'' = Inr (BackofficeCourseName ''Rust Basics'')
   \<and> new_BackofficeCourseDuration sampleRules ''4weeks'' = Inr (BackofficeCourseDuration ''4weeks'')
   \<and> (\<exists>course. fromPrimitives sampleRules sampleData = Inr course
         \<and> fst (toPrimitives course)
             = fst (toPrimitives (create (BackofficeCourseId ''abc-123'')
                  (BackofficeCourseName ''Rust Basics'') (BackofficeCourseDuration ''4weeks''))))"
  using create_fromPrimitives_agree [OF sample_id sample_name sample_duration]
    sample_id sample_name sample_duration
  by blast

text \<open>
  Claim C10. \<^verbatim>\<open>fromPrimitives\<close> validates in the order id, name, duration. When the id is
  rejected, the error is the id's and only the id constructor is evaluated; when the id is
  accepted and the name rejected, the error is the name's and the duration constructor is
  not evaluated; when only the duration is rejected, the error is the duration's. In each
  case the error is also the result of \<^verbatim>\<open>fromPrimitives\<close>, whatever the later fields hold.
\<close>

theorem fromPrimitives_validation_order:
  "(new_BackofficeCourseId rules (plainId r) = Inl e \<longrightarrow>
      fromPrimitives rules r = Inl e
      \<and> fromPrimitives_traced rules r = ([IdConstructor (plainId r)], Inl e))
   \<and> (new_BackofficeCourseId rules (plainId r) = Inr i
      \<and> new_BackofficeCourseName rules (plainName r) = Inl e \<longrightarrow>
      fromPrimitives rules r = Inl e
      \<and> fromPrimitives_traced rules r
          = ([IdConstructor (plainId r), NameConstructor (plainName r)], Inl e))
   \<and> (new_BackofficeCourseId rules (plainId r) = Inr i
      \<and> new_BackofficeCourseName rules (plainName r) = Inr n
      \<and> new_BackofficeCourseDuration rules (plainDuration r) = Inl e \<longrightarrow>
      fromPrimitives rules r = Inl e
      \<and> fromPrimitives_traced rules r
          = ([IdConstructor (plainId r), NameConstructor (plainName r),
              DurationConstructor (plainDuration r)], Inl e))"
  by (simp add: fromPrimitives_def fromPrimitives_traced_def)

theorem fromPrimitives_validation_order_witness:
  "new_BackofficeCourseId sampleRules [] = Inl (ValidationError ''id'' ''must not be empty'')
   \<and> new_BackofficeCourseId sampleRules ''abc-123'' = Inr (BackofficeCourseId ''abc-123'')
   \<and> new_BackofficeCourseName sampleRules ''  '' = Inl (ValidationError ''name'' ''must not be empty'')
   \<and> new_BackofficeCourseName sampleRules ''Rust Basics'' = Inr (BackofficeCourseName ''Rust Basics'')
   \<and> new_BackofficeCourseDuration sampleRules ''nonsense''
       = Inl (ValidationError ''duration'' ''must be an accepted duration'')
   \<and> fromPrimitives_traced sampleRules \<lparr>plainId = [], plainName = ''  '', plainDuration = ''nonsense''\<rparr>
     = ([IdConstructor []], Inl (ValidationError ''id'' ''must not be empty''))
   \<and> fromPrimitives_traced sampleRules
       \<lparr>plainId = ''abc-123'', plainName = ''  '', plainDuration = ''nonsense''\<rparr>
     = ([IdConstructor ''abc-123'', NameConstructor ''  ''],
        Inl (ValidationError ''name'' ''must not be empty''))
   \<and> fromPrimitives_traced sampleRules
       \<lparr>plainId = ''abc-123'', plainName = ''Rust Basics'', plainDuration = ''nonsense''\<rparr>
     = ([IdConstructor ''abc-123'', NameConstructor ''Rust Basics'', DurationConstructor ''nonsense''],
        Inl (ValidationError ''duration'' ''must be an accepted duration''))"
  using
    fromPrimitives_validation_order [of sampleRules
      "\<lparr>plainId = [], plainName = ''  '', plainDuration = ''nonsense''\<rparr>"
      "ValidationError ''id'' ''must not be empty''"]
    fromPrimitives_validation_order [of sampleRules
      "\<lparr>plainId = ''abc-123'', plainName = ''  '', plainDuration = ''nonsense''\<rparr>"
      "ValidationError ''name'' ''must not be empty''" "BackofficeCourseId ''abc-123''"]
    fromPrimitives_validation_order [of sampleRules
      "\<lparr>plainId = ''abc-123'', plainName = ''Rust Basics'', plainDuration = ''nonsense''\<rparr>"
      "ValidationError ''duration'' ''must be an accepted duration''"
      "BackofficeCourseId ''abc-123''" "BackofficeCourseName ''Rust Basics''"]
    sample_id sample_name sample_bad_id sample_bad_name sample_bad_duration
  by simp

end
